theory Spec2Isabelle
  imports Complex_Main
begin

section \<open>Data model\<close>

text \<open>
  The records the dashboard receives from the backend. Field names follow the JSON
  keys the source reads (\<^verbatim>\<open>attack.id\<close>, \<^verbatim>\<open>attack.attack_type\<close>, ...); \<^verbatim>\<open>id\<close> is
  written \<open>attack_id\<close> because \<open>id\<close> is the identity function of HOL. A key that may be
  missing or \<^verbatim>\<open>null\<close> is an \<open>option\<close>.
\<close>

record AttackRecord =
  attack_id :: int
  timestamp :: string
  source_ip :: string
  service_type :: string
  attack_type :: "string option"
  severity :: int
  country_code :: "string option"

text \<open>The body of a \<^verbatim>\<open>GET /attacks\<close> response: \<^verbatim>\<open>response.items\<close>, \<^verbatim>\<open>response.page\<close>,
  \<^verbatim>\<open>response.pages\<close>, \<^verbatim>\<open>response.total\<close>.\<close>

record PaginatedResult =
  items :: "AttackRecord list"
  r_page :: int
  r_pages :: int
  r_total :: int

text \<open>The \<^verbatim>\<open>params\<close> object handed to \<^verbatim>\<open>api.getAttacks\<close>; a key that the caller does not
  set is \<open>None\<close>.\<close>

record AttackQuery =
  q_page :: "int option"
  q_page_size :: "int option"
  q_service_type :: "string option"
  q_attack_type :: "string option"

record StatsSnapshot =
  total_attacks :: int
  attacks_today :: int
  unique_ips :: int

section \<open>The attack store (stores/attackStore)\<close>

record Store =
  attacks :: "AttackRecord list"
  stats :: "StatsSnapshot option"
  loading :: bool
  error :: "string option"

definition init_store :: Store where
  "init_store = \<lparr>attacks = [], stats = None, loading = False, error = None\<rparr>"

text \<open>\<^verbatim>\<open>recentAttacks = computed(() => attacks.value.slice(0, 50))\<close>\<close>

definition recentAttacks :: "Store \<Rightarrow> AttackRecord list" where
  "recentAttacks s = take 50 (attacks s)"

text \<open>
  \<^verbatim>\<open>fetchAttacks\<close> is an \<^verbatim>\<open>async\<close> function with one \<^verbatim>\<open>await\<close>. Its body runs in two
  pieces on the single JavaScript thread: the part before the \<^verbatim>\<open>await\<close>
  (\<open>fetchAttacks_begin\<close>: \<^verbatim>\<open>loading.value = true\<close>, then the request is sent), and the
  continuation that runs when the promise of \<^verbatim>\<open>api.getAttacks\<close> settles
  (\<open>fetchAttacks_settle\<close>). The promise settles with \<open>Inr response\<close> when it resolves and
  with \<open>Inl m\<close> when it rejects with an error \<^verbatim>\<open>e\<close> whose \<^verbatim>\<open>e.message\<close> is \<open>m\<close>. The
  \<^verbatim>\<open>finally\<close> block runs on both paths.
\<close>

definition fetchAttacks_begin :: "Store \<Rightarrow> Store" where
  "fetchAttacks_begin s = s\<lparr>loading := True\<rparr>"

fun fetchAttacks_settle :: "string + PaginatedResult \<Rightarrow> Store \<Rightarrow> Store" where
  "fetchAttacks_settle (Inr response) s = (s\<lparr>attacks := items response\<rparr>)\<lparr>loading := False\<rparr>"
| "fetchAttacks_settle (Inl message) s = (s\<lparr>error := Some message\<rparr>)\<lparr>loading := False\<rparr>"

text \<open>\<^verbatim>\<open>fetchStats\<close>, in the same two pieces; nothing happens before its \<^verbatim>\<open>await\<close>.\<close>

fun fetchStats_settle :: "string + StatsSnapshot \<Rightarrow> Store \<Rightarrow> Store" where
  "fetchStats_settle (Inr snapshot) s = s\<lparr>stats := Some snapshot\<rparr>"
| "fetchStats_settle (Inl message) s = s\<lparr>error := Some message\<rparr>"

text \<open>
  \<^verbatim>\<open>addAttack\<close>: \<^verbatim>\<open>unshift\<close> puts the record in front; \<^verbatim>\<open>slice(0, 100)\<close> keeps the first
  100 elements.
\<close>

definition addAttack :: "AttackRecord \<Rightarrow> Store \<Rightarrow> Store" where
  "addAttack attack s =
     (let s1 = s\<lparr>attacks := attack # attacks s\<rparr>
      in if length (attacks s1) > 100 then s1\<lparr>attacks := take 100 (attacks s1)\<rparr> else s1)"

subsection \<open>Runs of the store\<close>

text \<open>
  What can happen to one store, in the order the event loop runs it: a component calls
  \<^verbatim>\<open>fetchAttacks(params)\<close>, the promise of an earlier call settles, or the live channel
  hands over a record. A run keeps, next to the state, the \<^verbatim>\<open>api.getAttacks\<close> calls
  issued so far (call number \<open>n\<close> is \<open>calls ! n\<close>, numbered from 0 in the order of issue)
  and the numbers of the calls whose promise has not settled yet. A promise settles once,
  so \<open>Settle n\<close> has an effect only while call \<open>n\<close> is pending.
\<close>

record 's run =
  state :: 's
  calls :: "AttackQuery list"
  pending :: "nat list"

definition getAttacks_issue :: "AttackQuery \<Rightarrow> 's run \<Rightarrow> 's run" where
  "getAttacks_issue params r =
     r\<lparr>calls := calls r @ [params], pending := pending r @ [length (calls r)]\<rparr>"

datatype store_event =
    FetchAttacks AttackQuery
  | Settle nat "string + PaginatedResult"
  | AddAttack AttackRecord

fun store_step :: "store_event \<Rightarrow> Store run \<Rightarrow> Store run" where
  "store_step (FetchAttacks params) r =
     getAttacks_issue params (r\<lparr>state := fetchAttacks_begin (state r)\<rparr>)"
| "store_step (Settle n outcome) r =
     (if n \<in> set (pending r)
      then r\<lparr>state := fetchAttacks_settle outcome (state r), pending := removeAll n (pending r)\<rparr>
      else r)"
| "store_step (AddAttack attack) r = r\<lparr>state := addAttack attack (state r)\<rparr>"

definition store_run :: "store_event list \<Rightarrow> Store run \<Rightarrow> Store run" where
  "store_run es r = fold store_step es r"

definition init_store_run :: "Store run" where
  "init_store_run = \<lparr>state = init_store, calls = [], pending = []\<rparr>"

section \<open>The attacks view (views/Attacks)\<close>

text \<open>
  The reactive state of the view: \<^verbatim>\<open>attacks\<close>, \<^verbatim>\<open>page\<close>, \<^verbatim>\<open>pages\<close>, \<^verbatim>\<open>total\<close> and
  \<^verbatim>\<open>filters\<close>. The view keeps its own \<^verbatim>\<open>attacks\<close> (written \<open>view_attacks\<close>, the store
  has the name already); the two keys of \<^verbatim>\<open>filters\<close> are prefixed for the same reason.
\<close>

record Filters =
  filter_service_type :: string
  filter_attack_type :: string

record AttacksView =
  view_attacks :: "AttackRecord list"
  page :: int
  pages :: int
  total :: int
  filters :: Filters

definition init_view :: AttacksView where
  "init_view =
     \<lparr>view_attacks = [], page = 1, pages = 1, total = 0,
      filters = \<lparr>filter_service_type = [], filter_attack_type = []\<rparr>\<rparr>"

text \<open>
  \<^verbatim>\<open>loadAttacks\<close>: before the \<^verbatim>\<open>await\<close> it builds \<^verbatim>\<open>{ page: page.value, ...filters }\<close>
  from the state of that moment and sends the request; when the promise resolves it
  assigns \<^verbatim>\<open>attacks\<close>, \<^verbatim>\<open>pages\<close> and \<^verbatim>\<open>total\<close>. There is no \<^verbatim>\<open>try\<close>: a rejection
  leaves the function before any assignment.
\<close>

definition loadAttacks_params :: "AttacksView \<Rightarrow> AttackQuery" where
  "loadAttacks_params v =
     \<lparr>q_page = Some (page v), q_page_size = None,
      q_service_type = Some (filter_service_type (filters v)),
      q_attack_type = Some (filter_attack_type (filters v))\<rparr>"

definition loadAttacks :: "AttacksView run \<Rightarrow> AttacksView run" where
  "loadAttacks r = getAttacks_issue (loadAttacks_params (state r)) r"

fun loadAttacks_settle :: "string + PaginatedResult \<Rightarrow> AttacksView \<Rightarrow> AttacksView" where
  "loadAttacks_settle (Inr response) v =
     v\<lparr>view_attacks := items response, pages := r_pages response, total := r_total response\<rparr>"
| "loadAttacks_settle (Inl message) v = v"

definition prevPage :: "AttacksView run \<Rightarrow> AttacksView run" where
  "prevPage r =
     (if page (state r) > 1
      then loadAttacks (r\<lparr>state := (state r)\<lparr>page := page (state r) - 1\<rparr>\<rparr>)
      else r)"

definition nextPage :: "AttacksView run \<Rightarrow> AttacksView run" where
  "nextPage r =
     (if page (state r) < pages (state r)
      then loadAttacks (r\<lparr>state := (state r)\<lparr>page := page (state r) + 1\<rparr>\<rparr>)
      else r)"

text \<open>
  The two \<^verbatim>\<open>select\<close> elements: \<^verbatim>\<open>v-model\<close> writes the chosen value into
  \<^verbatim>\<open>filters.service_type\<close> (or \<^verbatim>\<open>filters.attack_type\<close>), then the \<^verbatim>\<open>@change\<close>
  handler, \<^verbatim>\<open>loadAttacks\<close>, runs.
\<close>

definition change_service_type :: "string \<Rightarrow> AttacksView run \<Rightarrow> AttacksView run" where
  "change_service_type x r =
     loadAttacks (r\<lparr>state := (state r)\<lparr>filters := (filters (state r))\<lparr>filter_service_type := x\<rparr>\<rparr>\<rparr>)"

definition change_attack_type :: "string \<Rightarrow> AttacksView run \<Rightarrow> AttacksView run" where
  "change_attack_type x r =
     loadAttacks (r\<lparr>state := (state r)\<lparr>filters := (filters (state r))\<lparr>filter_attack_type := x\<rparr>\<rparr>\<rparr>)"

datatype view_event =
    Mounted
  | SelectServiceType string
  | SelectAttackType string
  | PrevPage
  | NextPage
  | Loaded nat "string + PaginatedResult"

fun view_step :: "view_event \<Rightarrow> AttacksView run \<Rightarrow> AttacksView run" where
  "view_step Mounted r = loadAttacks r"
| "view_step (SelectServiceType x) r = change_service_type x r"
| "view_step (SelectAttackType x) r = change_attack_type x r"
| "view_step PrevPage r = prevPage r"
| "view_step NextPage r = nextPage r"
| "view_step (Loaded n outcome) r =
     (if n \<in> set (pending r)
      then r\<lparr>state := loadAttacks_settle outcome (state r), pending := removeAll n (pending r)\<rparr>
      else r)"

definition view_run :: "view_event list \<Rightarrow> AttacksView run \<Rightarrow> AttacksView run" where
  "view_run es r = fold view_step es r"

definition init_view_run :: "AttacksView run" where
  "init_view_run = \<lparr>state = init_view, calls = [], pending = []\<rparr>"

text \<open>\<^verbatim>\<open>severityClass\<close>, and the cell \<^verbatim>\<open>{{ attack.attack_type || 'unknown' }}\<close>. The
  operator \<^verbatim>\<open>||\<close> yields its right operand when the left one is \<^verbatim>\<open>undefined\<close>,
  \<^verbatim>\<open>null\<close> or the empty string.\<close>

definition severityClass :: "int \<Rightarrow> string" where
  "severityClass sev =
     (if sev \<ge> 8 then ''severity-critical font-bold''
      else if sev \<ge> 6 then ''severity-high''
      else if sev \<ge> 4 then ''severity-medium''
      else ''severity-low'')"

definition js_or :: "string option \<Rightarrow> string \<Rightarrow> string" where
  "js_or v d = (case v of None \<Rightarrow> d | Some s \<Rightarrow> if s = [] then d else s)"

definition table_attack_type :: "AttackRecord \<Rightarrow> string" where
  "table_attack_type attack = js_or (attack_type attack) ''unknown''"

section \<open>The live feed (components/LiveFeed)\<close>

text \<open>\<^verbatim>\<open>severityDot\<close>, and the span \<^verbatim>\<open>{{ attack.attack_type || 'scanning' }}\<close>.\<close>

definition severityDot :: "int \<Rightarrow> string" where
  "severityDot sev =
     (if sev \<ge> 8 then ''bg-red-500''
      else if sev \<ge> 5 then ''bg-yellow-500''
      else ''bg-green-500'')"

definition feed_attack_type :: "AttackRecord \<Rightarrow> string" where
  "feed_attack_type attack = js_or (attack_type attack) ''scanning''"

section \<open>The transport client (services/api)\<close>

text \<open>
  \<^verbatim>\<open>localStorage\<close> is a map from keys to strings; \<^verbatim>\<open>getItem\<close> of a key that was never
  set is \<^verbatim>\<open>null\<close>. A request is its method, its URL, its headers and the fields of
  its body (query parameters play no part in what follows). The \<^verbatim>\<open>axios\<close> instance is
  created with the base URL and the content type; \<^verbatim>\<open>axios\<close> sends the content type
  only with a request that has data, and removes it from one that has none (every
  \<^verbatim>\<open>client.get\<close> of this file). The request interceptor below neither reads nor
  writes that header, so \<open>client_config\<close> gives the headers as they are sent.
\<close>

type_synonym localStorage = "string \<rightharpoonup> string"

record Config =
  http_method :: string
  url :: string
  headers :: "string \<rightharpoonup> string"
  body :: "(string \<times> string) list"

definition client_config :: "string \<Rightarrow> string \<Rightarrow> (string \<times> string) list \<Rightarrow> Config" where
  "client_config m path payload =
     \<lparr>http_method = m, url = ''/api/v1'' @ path,
      headers = (if payload = [] then Map.empty else [''Content-Type'' \<mapsto> ''application/json'']),
      body = payload\<rparr>"

text \<open>The request interceptor. \<^verbatim>\<open>if (token)\<close> fails for \<^verbatim>\<open>null\<close> and for the empty
  string.\<close>

definition request_interceptor :: "localStorage \<Rightarrow> Config \<Rightarrow> Config" where
  "request_interceptor ls config =
     (case ls ''token'' of
        None \<Rightarrow> config
      | Some token \<Rightarrow>
          if token \<noteq> []
          then config\<lparr>headers := (headers config)(''Authorization'' \<mapsto> ''Bearer '' @ token)\<rparr>
          else config)"

text \<open>
  The backend is outside the repository: it answers a request with a status and a body,
  or not at all. \<^verbatim>\<open>axios\<close> resolves the promise for a status from 200 to 299 and rejects
  it otherwise; the client registers no response interceptor, so nothing else runs when
  a response arrives.
\<close>

record 'd Response =
  status :: nat
  data :: 'd

datatype AxiosError = NetworkError | BadStatus nat

type_synonym 'd server = "Config \<Rightarrow> 'd Response option"

definition client_request ::
  "'d server \<Rightarrow> localStorage \<Rightarrow> string \<Rightarrow> string \<Rightarrow> (string \<times> string) list \<Rightarrow> AxiosError + 'd Response" where
  "client_request srv ls m path payload =
     (case srv (request_interceptor ls (client_config m path payload)) of
        None \<Rightarrow> Inl NetworkError
      | Some response \<Rightarrow>
          if 200 \<le> status response \<and> status response < 300
          then Inr response
          else Inl (BadStatus (status response)))"

text \<open>
  The methods of the exported object return their result together with the
  \<^verbatim>\<open>localStorage\<close> they leave behind. \<^verbatim>\<open>getAttacks\<close>, \<^verbatim>\<open>getAttack\<close>, \<^verbatim>\<open>getStats\<close>,
  \<^verbatim>\<open>getTimeline\<close>, \<^verbatim>\<open>getGeoData\<close>, \<^verbatim>\<open>getTopAttackers\<close> and \<^verbatim>\<open>getAttackTypes\<close> are all
  \<^verbatim>\<open>client.get\<close> of a path followed by \<^verbatim>\<open>return response.data\<close> (\<open>api_get\<close>).
\<close>

definition api_get :: "'d server \<Rightarrow> localStorage \<Rightarrow> string \<Rightarrow> (AxiosError + 'd) \<times> localStorage" where
  "api_get srv ls path =
     (case client_request srv ls ''GET'' path [] of
        Inl e \<Rightarrow> (Inl e, ls)
      | Inr response \<Rightarrow> (Inr (data response), ls))"

definition getAttacks :: "PaginatedResult server \<Rightarrow> localStorage \<Rightarrow> (AxiosError + PaginatedResult) \<times> localStorage" where
  "getAttacks srv ls = api_get srv ls ''/attacks''"

definition getStats :: "StatsSnapshot server \<Rightarrow> localStorage \<Rightarrow> (AxiosError + StatsSnapshot) \<times> localStorage" where
  "getStats srv ls = api_get srv ls ''/stats/overview''"

record LoginData =
  access_token :: string
  token_type :: string

definition login ::
  "LoginData server \<Rightarrow> localStorage \<Rightarrow> string \<Rightarrow> string \<Rightarrow> (AxiosError + LoginData) \<times> localStorage" where
  "login srv ls username password =
     (case client_request srv ls ''POST'' ''/auth/login''
             [(''username'', username), (''password'', password)] of
        Inl e \<Rightarrow> (Inl e, ls)
      | Inr response \<Rightarrow>
          (Inr (data response), ls(''token'' \<mapsto> access_token (data response))))"

section \<open>The attack map (views/AttackMap)\<close>

text \<open>
  An entry of \<^verbatim>\<open>GET /stats/geographic\<close>. The coordinates are JSON numbers or absent;
  a JSON number is finite, so it is modelled as a real.
\<close>

record GeoPoint =
  geo_country_code :: string
  country_name :: string
  count :: int
  latitude :: "real option"
  longitude :: "real option"

text \<open>A number is truthy unless it is absent or zero.\<close>

definition js_truthy :: "real option \<Rightarrow> bool" where
  "js_truthy v = (case v of None \<Rightarrow> False | Some x \<Rightarrow> x \<noteq> 0)"

text \<open>The layer \<^verbatim>\<open>L.circleMarker([point.latitude, point.longitude], { radius, ... })\<close>
  with its popup (country name and count).\<close>

record CircleMarker =
  latlng :: "real option \<times> real option"
  radius :: real
  popup :: "string \<times> int"

definition circleMarker :: "GeoPoint \<Rightarrow> CircleMarker" where
  "circleMarker point =
     \<lparr>latlng = (latitude point, longitude point),
      radius = min (max (real_of_int (count point) / 10) 5) 30,
      popup = (country_name point, count point)\<rparr>"

text \<open>The body of the \<^verbatim>\<open>forEach\<close> in \<^verbatim>\<open>onMounted\<close>, on the layers added to the map so
  far, and the loop over \<^verbatim>\<open>geoData\<close>.\<close>

definition addPoint :: "GeoPoint \<Rightarrow> CircleMarker list \<Rightarrow> CircleMarker list" where
  "addPoint point layers =
     (if js_truthy (latitude point) \<and> js_truthy (longitude point)
      then layers @ [circleMarker point]
      else layers)"

definition map_markers :: "GeoPoint list \<Rightarrow> CircleMarker list" where
  "map_markers geoData = fold addPoint geoData []"

text \<open>The list "Top Attack Origins": one row per element of \<^verbatim>\<open>geoData\<close>, showing
  \<^verbatim>\<open>geo.country_name\<close> and \<^verbatim>\<open>geo.count\<close>.\<close>

definition top_origins :: "GeoPoint list \<Rightarrow> (string \<times> int) list" where
  "top_origins geoData = map (\<lambda>geo. (country_name geo, count geo)) geoData"

section \<open>The severity categories of the specification\<close>

text \<open>
  The specification's table, in its own words: severity \<open>\<ge> 8\<close> is critical, \<open>\<ge> 6\<close> high,
  \<open>\<ge> 4\<close> medium, anything else low. It is compared with \<open>severityClass\<close> and
  \<open>severityDot\<close> below.
\<close>

datatype category = Low | Medium | High | Critical

definition spec_category :: "int \<Rightarrow> category" where
  "spec_category sev =
     (if sev \<ge> 8 then Critical else if sev \<ge> 6 then High else if sev \<ge> 4 then Medium else Low)"

fun category_class :: "category \<Rightarrow> string" where
  "category_class Critical = ''severity-critical font-bold''"
| "category_class High = ''severity-high''"
| "category_class Medium = ''severity-medium''"
| "category_class Low = ''severity-low''"

section \<open>Events that commit\<close>

text \<open>
  The events of a run that write the rows: in the store, a call that resolves and a
  live push write \<open>attacks\<close>; in the view, a call that resolves writes \<open>attacks\<close>,
  \<open>pages\<close> and \<open>total\<close>. Issuing a call, a call that fails and (in the view)
  navigation and filter changes write none of them.
\<close>

fun store_commits :: "store_event \<Rightarrow> bool" where
  "store_commits (FetchAttacks params) = False"
| "store_commits (Settle n (Inl message)) = False"
| "store_commits (Settle n (Inr response)) = True"
| "store_commits (AddAttack attack) = True"

fun view_commits :: "view_event \<Rightarrow> bool" where
  "view_commits (Loaded n (Inr response)) = True"
| "view_commits e = False"

section \<open>Concrete inputs\<close>

definition sample_attack :: "int \<Rightarrow> AttackRecord" where
  "sample_attack i =
     \<lparr>attack_id = i, timestamp = ''2024-01-01T00:00:00Z'', source_ip = ''203.0.113.7'',
      service_type = ''ssh'', attack_type = None, severity = 5, country_code = None\<rparr>"

definition sample_pushes :: "AttackRecord list" where
  "sample_pushes = map (\<lambda>i. sample_attack (int i)) [0..<150]"

definition sample_query :: "int \<Rightarrow> AttackQuery" where
  "sample_query n =
     \<lparr>q_page = Some n, q_page_size = None, q_service_type = None, q_attack_type = None\<rparr>"

text \<open>Page \<open>n\<close> of three, holding the single record with id \<open>n\<close>.\<close>

definition sample_page :: "int \<Rightarrow> PaginatedResult" where
  "sample_page n = \<lparr>items = [sample_attack n], r_page = n, r_pages = 3, r_total = 3\<rparr>"

text \<open>A backend that answers every request with status 401 and the given body.\<close>

definition server_401 :: "'d \<Rightarrow> 'd server" where
  "server_401 d config = Some \<lparr>status = 401, data = d\<rparr>"

definition no_login :: LoginData where
  "no_login = \<lparr>access_token = [], token_type = []\<rparr>"

definition storage_with_token :: localStorage where
  "storage_with_token = [''token'' \<mapsto> ''abc'']"

definition equator_point :: GeoPoint where
  "equator_point =
     \<lparr>geo_country_code = ''EC'', country_name = ''Ecuador'', count = 42,
      latitude = Some 0, longitude = Some (-78)\<rparr>"

definition berlin_point :: GeoPoint where
  "berlin_point =
     \<lparr>geo_country_code = ''DE'', country_name = ''Germany'', count = 7,
      latitude = Some 52, longitude = Some 13\<rparr>"

section \<open>Properties of the store\<close>

lemma attacks_addAttack: "attacks (addAttack a s) = take 100 (a # attacks s)"
  by (simp add: addAttack_def Let_def)

lemma take_append_take: "take n (xs @ take n ys) = take n (xs @ ys)"
  by (simp add: min_def)

lemma attacks_fold_addAttack:
  "attacks (fold addAttack rs (addAttack r s)) = take 100 (rev rs @ r # attacks s)"
proof (induction rs arbitrary: r s)
  case Nil
  then show ?case by (simp add: attacks_addAttack)
next
  case (Cons x rs)
  have "attacks (fold addAttack (x # rs) (addAttack r s))
          = take 100 (rev rs @ x # take 100 (r # attacks s))"
    using Cons.IH [of x "addAttack r s"] by (simp add: attacks_addAttack)
  also have "\<dots> = take 100 ((rev rs @ [x]) @ take 100 (r # attacks s))"
    by simp
  also have "\<dots> = take 100 ((rev rs @ [x]) @ (r # attacks s))"
    by (rule take_append_take)
  finally show ?case by simp
qed

lemma attacks_fold_addAttack_empty:
  assumes "attacks s = []"
  shows "attacks (fold addAttack rs s) = take 100 (rev rs)"
proof (cases rs)
  case Nil
  then show ?thesis using assms by simp
next
  case (Cons r rs')
  then show ?thesis using attacks_fold_addAttack [of rs' r s] assms by simp
qed

lemma state_store_run_pushes:
  "state (store_run (map AddAttack rs) r) = fold addAttack rs (state r)"
  unfolding store_run_def
  by (induction rs arbitrary: r) simp_all

subsection \<open>The bound of the live buffer\<close>

text \<open>
  Claim C9. \<^verbatim>\<open>addAttack\<close> (the specification's \<open>pushLive\<close>) never leaves more than 100
  records in \<open>attacks\<close>, whatever the store held before: it puts the new record in front
  and keeps the first 100. After 150 pushes onto the empty store the length is exactly
  100 and \<open>attacks\<close> is the last 100 pushed records, newest first; the 50 pushed first
  are gone.
\<close>

theorem addAttack_bounded:
  "length (attacks (addAttack a s)) \<le> 100
   \<and> attacks (addAttack a s) = take 100 (a # attacks s)
   \<and> (length rs = 150 \<longrightarrow>
        length (attacks (state (store_run (map AddAttack rs) init_store_run))) = 100
      \<and> attacks (state (store_run (map AddAttack rs) init_store_run)) = rev (drop 50 rs))"
proof -
  have bound: "length (attacks (addAttack a s)) \<le> 100"
    by (simp add: attacks_addAttack)
  have pushes: "attacks (state (store_run (map AddAttack rs) init_store_run)) = take 100 (rev rs)"
    by (simp add: state_store_run_pushes attacks_fold_addAttack_empty init_store_run_def init_store_def)
  have "take 100 (rev rs) = rev (drop 50 rs)" if "length rs = 150"
    using that by (simp add: take_rev)
  with bound pushes show ?thesis
    by (simp add: attacks_addAttack)
qed

theorem addAttack_bounded_witness:
  "length sample_pushes = 150
   \<and> length (attacks (state (store_run (map AddAttack sample_pushes) init_store_run))) = 100
   \<and> attacks (state (store_run (map AddAttack sample_pushes) init_store_run)) = rev (drop 50 sample_pushes)"
proof -
  have len: "length sample_pushes = 150"
    by (simp add: sample_pushes_def)
  with addAttack_bounded [of "sample_attack 0" init_store sample_pushes] show ?thesis
    by simp
qed

subsection \<open>A pushed record with the id of the newest entry\<close>

text \<open>
  Claim C5, as amended. \<^verbatim>\<open>addAttack\<close> compares no ids: a record whose id equals the id
  of the first (most recent) entry is put in front like any other record, so \<open>attacks\<close>
  grows by one, up to the bound of 100.
\<close>

theorem addAttack_duplicate_prepended:
  "attacks s = x # xs \<and> attack_id a = attack_id x \<longrightarrow>
     attacks (addAttack a s) = take 100 (a # x # xs)
   \<and> length (attacks (addAttack a s)) = min 100 (Suc (length (attacks s)))"
  by (auto simp add: attacks_addAttack)

theorem addAttack_duplicate_prepended_witness:
  "attacks (init_store\<lparr>attacks := [sample_attack 7]\<rparr>) = sample_attack 7 # []
   \<and> attack_id (sample_attack 7) = attack_id (sample_attack 7)
   \<and> attacks (addAttack (sample_attack 7) (init_store\<lparr>attacks := [sample_attack 7]\<rparr>))
        = [sample_attack 7, sample_attack 7]
   \<and> length (attacks (addAttack (sample_attack 7) (init_store\<lparr>attacks := [sample_attack 7]\<rparr>))) = 2"
  using addAttack_duplicate_prepended
    [of "init_store\<lparr>attacks := [sample_attack 7]\<rparr>" "sample_attack 7" "[]" "sample_attack 7"]
  by simp

text \<open>
  The claim as it was stated (the push is ignored, \<open>attacks\<close> and its length unchanged)
  fails on the store that holds the record with id 7 when that record is pushed again.
\<close>

theorem addAttack_duplicate_counterexample:
  "attack_id (sample_attack 7) = attack_id (hd (attacks (init_store\<lparr>attacks := [sample_attack 7]\<rparr>)))
   \<and> attacks (addAttack (sample_attack 7) (init_store\<lparr>attacks := [sample_attack 7]\<rparr>))
       = [sample_attack 7, sample_attack 7]
   \<and> length (attacks (addAttack (sample_attack 7) (init_store\<lparr>attacks := [sample_attack 7]\<rparr>)))
       \<noteq> length (attacks (init_store\<lparr>attacks := [sample_attack 7]\<rparr>))"
  by (simp add: attacks_addAttack)

subsection \<open>A fetch that fails\<close>

text \<open>
  Claim C6. When the promise of \<^verbatim>\<open>api.getAttacks\<close> rejects, \<^verbatim>\<open>fetchAttacks\<close> sets
  \<open>error\<close> to the message of the failure and leaves \<open>attacks\<close> as it was: neither the
  part before the \<^verbatim>\<open>await\<close> nor the \<^verbatim>\<open>catch\<close> and \<^verbatim>\<open>finally\<close> blocks write it. The
  same holds in a run, for every pending call that fails.
\<close>

theorem fetchAttacks_failure:
  "error (fetchAttacks_settle (Inl m) s) = Some m
   \<and> attacks (fetchAttacks_settle (Inl m) s) = attacks s
   \<and> attacks (fetchAttacks_begin s) = attacks s
   \<and> (n \<in> set (pending r) \<longrightarrow>
        error (state (store_step (Settle n (Inl m)) r)) = Some m
      \<and> attacks (state (store_step (Settle n (Inl m)) r)) = attacks (state r))"
  by (simp add: fetchAttacks_begin_def)

theorem fetchAttacks_failure_witness:
  "1 \<in> set (pending (store_run [FetchAttacks (sample_query 1), Settle 0 (Inr (sample_page 1)),
        FetchAttacks (sample_query 2)] init_store_run))
   \<and> attacks (state (store_run [FetchAttacks (sample_query 1), Settle 0 (Inr (sample_page 1)),
        FetchAttacks (sample_query 2)] init_store_run)) = [sample_attack 1]
   \<and> error (state (store_run [FetchAttacks (sample_query 1), Settle 0 (Inr (sample_page 1)),
        FetchAttacks (sample_query 2), Settle 1 (Inl ''Network Error'')] init_store_run))
       = Some ''Network Error''
   \<and> attacks (state (store_run [FetchAttacks (sample_query 1), Settle 0 (Inr (sample_page 1)),
        FetchAttacks (sample_query 2), Settle 1 (Inl ''Network Error'')] init_store_run))
       = [sample_attack 1]
   \<and> attacks (fetchAttacks_settle (Inl ''Network Error'')
        (fetchAttacks_begin (init_store\<lparr>attacks := [sample_attack 1, sample_attack 2]\<rparr>)))
       = [sample_attack 1, sample_attack 2]"
proof -
  have run: "store_run [FetchAttacks (sample_query 1), Settle 0 (Inr (sample_page 1)),
        FetchAttacks (sample_query 2), Settle 1 (Inl ''Network Error'')] init_store_run
      = store_step (Settle 1 (Inl ''Network Error''))
          (store_run [FetchAttacks (sample_query 1), Settle 0 (Inr (sample_page 1)),
             FetchAttacks (sample_query 2)] init_store_run)"
    by (simp add: store_run_def)
  have pend: "1 \<in> set (pending (store_run [FetchAttacks (sample_query 1),
        Settle 0 (Inr (sample_page 1)), FetchAttacks (sample_query 2)] init_store_run))"
    by (simp add: store_run_def getAttacks_issue_def init_store_run_def)
  have before: "attacks (state (store_run [FetchAttacks (sample_query 1),
        Settle 0 (Inr (sample_page 1)), FetchAttacks (sample_query 2)] init_store_run))
      = [sample_attack 1]"
    by (simp add: store_run_def getAttacks_issue_def init_store_run_def fetchAttacks_begin_def
        sample_page_def)
  have prior: "attacks (fetchAttacks_begin (init_store\<lparr>attacks := [sample_attack 1, sample_attack 2]\<rparr>))
      = [sample_attack 1, sample_attack 2]"
    by (simp add: fetchAttacks_begin_def)
  from fetchAttacks_failure
    [of "''Network Error''"
        "fetchAttacks_begin (init_store\<lparr>attacks := [sample_attack 1, sample_attack 2]\<rparr>)" 1
        "store_run [FetchAttacks (sample_query 1), Settle 0 (Inr (sample_page 1)),
           FetchAttacks (sample_query 2)] init_store_run"]
    pend before prior run
  show ?thesis by simp
qed

subsection \<open>A fetch that succeeds\<close>

text \<open>
  Claim C7, as amended. When the promise of \<^verbatim>\<open>api.getAttacks\<close> resolves,
  \<^verbatim>\<open>fetchAttacks\<close> sets \<open>loading\<close> to false and leaves \<open>error\<close> as it was: no
  statement of the store ever resets \<open>error\<close>, so the message of an earlier failure
  stays.
\<close>

theorem fetchAttacks_success_keeps_error:
  "loading (fetchAttacks_settle (Inr response) s) = False
   \<and> error (fetchAttacks_settle (Inr response) s) = error s
   \<and> error (fetchAttacks_begin s) = error s
   \<and> (n \<in> set (pending r) \<longrightarrow>
        loading (state (store_step (Settle n (Inr response)) r)) = False
      \<and> error (state (store_step (Settle n (Inr response)) r)) = error (state r))"
  by (simp add: fetchAttacks_begin_def)

theorem fetchAttacks_success_keeps_error_witness:
  "1 \<in> set (pending (store_run [FetchAttacks (sample_query 1), Settle 0 (Inl ''Network Error''),
        FetchAttacks (sample_query 1)] init_store_run))
   \<and> loading (state (store_run [FetchAttacks (sample_query 1), Settle 0 (Inl ''Network Error''),
        FetchAttacks (sample_query 1), Settle 1 (Inr (sample_page 1))] init_store_run)) = False
   \<and> error (state (store_run [FetchAttacks (sample_query 1), Settle 0 (Inl ''Network Error''),
        FetchAttacks (sample_query 1), Settle 1 (Inr (sample_page 1))] init_store_run))
       = Some ''Network Error''"
  using fetchAttacks_success_keeps_error
    [of "sample_page 1" init_store 1
        "store_run [FetchAttacks (sample_query 1), Settle 0 (Inl ''Network Error''),
           FetchAttacks (sample_query 1)] init_store_run"]
  by (simp add: store_run_def getAttacks_issue_def init_store_run_def init_store_def
      fetchAttacks_begin_def)

text \<open>
  The claim as it was stated (a success clears the error) fails on the run in which a
  first fetch fails and a second one succeeds: the data of the second fetch is
  committed and the error of the first is still shown.
\<close>

theorem fetchAttacks_success_counterexample:
  "error (state (store_run [FetchAttacks (sample_query 1), Settle 0 (Inl ''Network Error''),
        FetchAttacks (sample_query 1), Settle 1 (Inr (sample_page 1))] init_store_run))
     \<noteq> None
   \<and> attacks (state (store_run [FetchAttacks (sample_query 1), Settle 0 (Inl ''Network Error''),
        FetchAttacks (sample_query 1), Settle 1 (Inr (sample_page 1))] init_store_run))
     = items (sample_page 1)"
  by (simp add: store_run_def getAttacks_issue_def init_store_run_def init_store_def
      fetchAttacks_begin_def)

subsection \<open>Overlapping fetches\<close>

lemma store_step_keeps_attacks:
  "\<not> store_commits e \<Longrightarrow> attacks (state (store_step e r)) = attacks (state r)"
  by (cases e rule: store_commits.cases)
     (simp_all add: getAttacks_issue_def fetchAttacks_begin_def)

lemma store_run_keeps_attacks:
  "list_all (\<lambda>e. \<not> store_commits e) es \<Longrightarrow>
     attacks (state (store_run es r)) = attacks (state r)"
proof (induction es arbitrary: r)
  case Nil
  then show ?case by (simp add: store_run_def)
next
  case (Cons e es)
  have "store_run (e # es) r = store_run es (store_step e r)"
    by (simp add: store_run_def)
  with Cons show ?case
    by (simp add: store_step_keeps_attacks)
qed

lemma view_step_keeps_rows:
  "\<not> view_commits e \<Longrightarrow>
     view_attacks (state (view_step e r)) = view_attacks (state r)
   \<and> pages (state (view_step e r)) = pages (state r)
   \<and> total (state (view_step e r)) = total (state r)"
  by (cases e rule: view_commits.cases)
     (simp_all add: loadAttacks_def getAttacks_issue_def prevPage_def nextPage_def
        change_service_type_def change_attack_type_def)

lemma view_run_keeps_rows:
  "list_all (\<lambda>e. \<not> view_commits e) es \<Longrightarrow>
     view_attacks (state (view_run es r)) = view_attacks (state r)
   \<and> pages (state (view_run es r)) = pages (state r)
   \<and> total (state (view_run es r)) = total (state r)"
proof (induction es arbitrary: r)
  case Nil
  then show ?case by (simp add: view_run_def)
next
  case (Cons e es)
  have "view_run (e # es) r = view_run es (view_step e r)"
    by (simp add: view_run_def)
  with Cons show ?case
    by (simp add: view_step_keeps_rows)
qed

text \<open>
  Claim C1, as amended. Neither \<^verbatim>\<open>fetchAttacks\<close> nor \<^verbatim>\<open>loadAttacks\<close> numbers its
  requests or compares anything before it commits: every pending call that resolves
  writes its response, whatever was issued after it, and no completion is discarded.
  So after any run the committed state is that of the response that resolved last (the
  store's \<open>attacks\<close>, as long as no live push follows; the view's \<open>attacks\<close>, \<open>pages\<close>
  and \<open>total\<close>), not that of the request issued last.
\<close>

theorem fetch_commits_in_arrival_order:
  "(n \<in> set (pending (store_run es r)) \<and> list_all (\<lambda>e. \<not> store_commits e) later \<longrightarrow>
      attacks (state (store_run (es @ Settle n (Inr response) # later) r)) = items response)
   \<and> (k \<in> set (pending (view_run vs v)) \<and> list_all (\<lambda>e. \<not> view_commits e) after \<longrightarrow>
      view_attacks (state (view_run (vs @ Loaded k (Inr reply) # after) v)) = items reply
    \<and> pages (state (view_run (vs @ Loaded k (Inr reply) # after) v)) = r_pages reply
    \<and> total (state (view_run (vs @ Loaded k (Inr reply) # after) v)) = r_total reply)"
proof -
  have store: "attacks (state (store_run (es @ Settle n (Inr response) # later) r)) = items response"
    if "n \<in> set (pending (store_run es r))" and "list_all (\<lambda>e. \<not> store_commits e) later"
  proof -
    have "store_run (es @ Settle n (Inr response) # later) r
            = store_run later (store_step (Settle n (Inr response)) (store_run es r))"
      by (simp add: store_run_def)
    then show ?thesis
      using that by (simp add: store_run_keeps_attacks)
  qed
  have view: "view_attacks (state (view_run (vs @ Loaded k (Inr reply) # after) v)) = items reply
      \<and> pages (state (view_run (vs @ Loaded k (Inr reply) # after) v)) = r_pages reply
      \<and> total (state (view_run (vs @ Loaded k (Inr reply) # after) v)) = r_total reply"
    if "k \<in> set (pending (view_run vs v))" and "list_all (\<lambda>e. \<not> view_commits e) after"
  proof -
    have "view_run (vs @ Loaded k (Inr reply) # after) v
            = view_run after (view_step (Loaded k (Inr reply)) (view_run vs v))"
      by (simp add: view_run_def)
    then show ?thesis
      using that by (simp add: view_run_keeps_rows)
  qed
  from store view show ?thesis by blast
qed

theorem fetch_commits_in_arrival_order_witness:
  "0 \<in> set (pending (store_run [FetchAttacks (sample_query 1), FetchAttacks (sample_query 2),
        Settle 1 (Inr (sample_page 2))] init_store_run))
   \<and> list_all (\<lambda>e. \<not> store_commits e) [FetchAttacks (sample_query 3)]
   \<and> attacks (state (store_run ([FetchAttacks (sample_query 1), FetchAttacks (sample_query 2),
        Settle 1 (Inr (sample_page 2))] @ Settle 0 (Inr (sample_page 1))
        # [FetchAttacks (sample_query 3)]) init_store_run))
       = items (sample_page 1)
   \<and> 1 \<in> set (pending (view_run [Mounted, Loaded 0 (Inr (sample_page 1)), NextPage, NextPage,
        Loaded 2 (Inr (sample_page 3))] init_view_run))
   \<and> list_all (\<lambda>e. \<not> view_commits e) [NextPage]
   \<and> view_attacks (state (view_run ([Mounted, Loaded 0 (Inr (sample_page 1)), NextPage, NextPage,
        Loaded 2 (Inr (sample_page 3))] @ Loaded 1 (Inr (sample_page 2)) # [NextPage])
        init_view_run))
       = items (sample_page 2)"
  using fetch_commits_in_arrival_order
    [of 0 "[FetchAttacks (sample_query 1), FetchAttacks (sample_query 2),
        Settle 1 (Inr (sample_page 2))]" init_store_run "[FetchAttacks (sample_query 3)]"
        "sample_page 1" 1
        "[Mounted, Loaded 0 (Inr (sample_page 1)), NextPage, NextPage,
        Loaded 2 (Inr (sample_page 3))]" init_view_run "[NextPage]" "sample_page 2"]
  by (simp add: store_run_def view_run_def getAttacks_issue_def init_store_run_def
      init_view_run_def init_view_def loadAttacks_def nextPage_def sample_page_def)

text \<open>
  The claim as it was stated fails on its own example: fetch page 1, fetch page 2,
  resolve page 2, then page 1. The store ends with the records of page 1, the response
  of the older request. In the view, after going to page 3 while the request for page
  2 is still pending, the late response for page 2 replaces the rows of page 3.
\<close>

theorem stale_response_counterexample:
  "calls (store_run [FetchAttacks (sample_query 1), FetchAttacks (sample_query 2),
       Settle 1 (Inr (sample_page 2)), Settle 0 (Inr (sample_page 1))] init_store_run)
     = [sample_query 1, sample_query 2]
   \<and> attacks (state (store_run [FetchAttacks (sample_query 1), FetchAttacks (sample_query 2),
       Settle 1 (Inr (sample_page 2)), Settle 0 (Inr (sample_page 1))] init_store_run))
     = items (sample_page 1)
   \<and> items (sample_page 1) \<noteq> items (sample_page 2)
   \<and> page (state (view_run [Mounted, Loaded 0 (Inr (sample_page 1)), NextPage, NextPage,
       Loaded 2 (Inr (sample_page 3)), Loaded 1 (Inr (sample_page 2))] init_view_run)) = 3
   \<and> view_attacks (state (view_run [Mounted, Loaded 0 (Inr (sample_page 1)), NextPage, NextPage,
       Loaded 2 (Inr (sample_page 3)), Loaded 1 (Inr (sample_page 2))] init_view_run))
     = items (sample_page 2)
   \<and> items (sample_page 2) \<noteq> items (sample_page 3)"
  by (simp add: store_run_def view_run_def getAttacks_issue_def init_store_run_def
      init_view_run_def init_view_def loadAttacks_def nextPage_def sample_page_def
      sample_attack_def)

section \<open>Properties of the attacks view\<close>

text \<open>
  Claim C2, as amended. Choosing a value in either filter \<^verbatim>\<open>select\<close> stores it in
  \<^verbatim>\<open>filters\<close> and calls \<^verbatim>\<open>loadAttacks\<close> once: exactly one new request is issued, it
  carries the changed filters and the current page, and \<open>page\<close> is left as it was.
\<close>

theorem filter_change_keeps_page:
  "filters (state (change_service_type x r)) = (filters (state r))\<lparr>filter_service_type := x\<rparr>
   \<and> page (state (change_service_type x r)) = page (state r)
   \<and> calls (change_service_type x r)
       = calls r @ [\<lparr>q_page = Some (page (state r)), q_page_size = None,
                     q_service_type = Some x,
                     q_attack_type = Some (filter_attack_type (filters (state r)))\<rparr>]
   \<and> pending (change_service_type x r) = pending r @ [length (calls r)]
   \<and> filters (state (change_attack_type x r)) = (filters (state r))\<lparr>filter_attack_type := x\<rparr>
   \<and> page (state (change_attack_type x r)) = page (state r)
   \<and> calls (change_attack_type x r)
       = calls r @ [\<lparr>q_page = Some (page (state r)), q_page_size = None,
                     q_service_type = Some (filter_service_type (filters (state r))),
                     q_attack_type = Some x\<rparr>]
   \<and> pending (change_attack_type x r) = pending r @ [length (calls r)]"
proof -
  have service: "change_service_type x r
      = getAttacks_issue
          \<lparr>q_page = Some (page (state r)), q_page_size = None, q_service_type = Some x,
           q_attack_type = Some (filter_attack_type (filters (state r)))\<rparr>
          (r\<lparr>state := (state r)\<lparr>filters := (filters (state r))\<lparr>filter_service_type := x\<rparr>\<rparr>\<rparr>)"
    by (simp add: change_service_type_def loadAttacks_def loadAttacks_params_def)
  have attack: "change_attack_type x r
      = getAttacks_issue
          \<lparr>q_page = Some (page (state r)), q_page_size = None,
           q_service_type = Some (filter_service_type (filters (state r))),
           q_attack_type = Some x\<rparr>
          (r\<lparr>state := (state r)\<lparr>filters := (filters (state r))\<lparr>filter_attack_type := x\<rparr>\<rparr>\<rparr>)"
    by (simp add: change_attack_type_def loadAttacks_def loadAttacks_params_def)
  show ?thesis
    unfolding service attack by (simp add: getAttacks_issue_def)
qed

theorem filter_change_keeps_page_witness:
  "filters (state (view_run [Mounted, Loaded 0 (Inr (sample_page 1)), NextPage, NextPage,
       SelectServiceType ''ssh''] init_view_run))
     = \<lparr>filter_service_type = ''ssh'', filter_attack_type = []\<rparr>
   \<and> page (state (view_run [Mounted, Loaded 0 (Inr (sample_page 1)), NextPage, NextPage,
       SelectServiceType ''ssh''] init_view_run)) = 3
   \<and> calls (view_run [Mounted, Loaded 0 (Inr (sample_page 1)), NextPage, NextPage,
       SelectServiceType ''ssh''] init_view_run)
     = calls (view_run [Mounted, Loaded 0 (Inr (sample_page 1)), NextPage, NextPage] init_view_run)
       @ [\<lparr>q_page = Some 3, q_page_size = None, q_service_type = Some ''ssh'',
           q_attack_type = Some []\<rparr>]
   \<and> filters (state (view_run [Mounted, Loaded 0 (Inr (sample_page 1)), NextPage, NextPage,
       SelectAttackType ''xss''] init_view_run))
     = \<lparr>filter_service_type = [], filter_attack_type = ''xss''\<rparr>
   \<and> page (state (view_run [Mounted, Loaded 0 (Inr (sample_page 1)), NextPage, NextPage,
       SelectAttackType ''xss''] init_view_run)) = 3
   \<and> calls (view_run [Mounted, Loaded 0 (Inr (sample_page 1)), NextPage, NextPage,
       SelectAttackType ''xss''] init_view_run)
     = calls (view_run [Mounted, Loaded 0 (Inr (sample_page 1)), NextPage, NextPage] init_view_run)
       @ [\<lparr>q_page = Some 3, q_page_size = None, q_service_type = Some [],
           q_attack_type = Some ''xss''\<rparr>]"
proof -
  have on_page_3: "state (view_run [Mounted, Loaded 0 (Inr (sample_page 1)), NextPage, NextPage]
        init_view_run)
      = \<lparr>view_attacks = [sample_attack 1], page = 3, pages = 3, total = 3,
         filters = \<lparr>filter_service_type = [], filter_attack_type = []\<rparr>\<rparr>"
    by (simp add: view_run_def getAttacks_issue_def init_view_run_def init_view_def
        loadAttacks_def nextPage_def sample_page_def)
  have service: "view_run [Mounted, Loaded 0 (Inr (sample_page 1)), NextPage, NextPage,
        SelectServiceType ''ssh''] init_view_run
      = change_service_type ''ssh''
          (view_run [Mounted, Loaded 0 (Inr (sample_page 1)), NextPage, NextPage] init_view_run)"
    by (simp add: view_run_def)
  have attack: "view_run [Mounted, Loaded 0 (Inr (sample_page 1)), NextPage, NextPage,
        SelectAttackType ''xss''] init_view_run
      = change_attack_type ''xss''
          (view_run [Mounted, Loaded 0 (Inr (sample_page 1)), NextPage, NextPage] init_view_run)"
    by (simp add: view_run_def)
  from filter_change_keeps_page
      [of "''ssh''"
          "view_run [Mounted, Loaded 0 (Inr (sample_page 1)), NextPage, NextPage] init_view_run"]
    filter_change_keeps_page
      [of "''xss''"
          "view_run [Mounted, Loaded 0 (Inr (sample_page 1)), NextPage, NextPage] init_view_run"]
  show ?thesis
    unfolding service attack by (simp add: on_page_3)
qed

text \<open>
  The claim as it was stated (the page is reset to 1 before the fetch) fails for a view
  that is on page 3 of 3 when the service filter is set to \<^verbatim>\<open>ssh\<close>: the page is still
  3, and the request asks for page 3 of the filtered list.
\<close>

theorem filter_change_counterexample:
  "page (state (view_run [Mounted, Loaded 0 (Inr (sample_page 1)), NextPage, NextPage,
       SelectServiceType ''ssh''] init_view_run)) = 3
   \<and> last (calls (view_run [Mounted, Loaded 0 (Inr (sample_page 1)), NextPage, NextPage,
       SelectServiceType ''ssh''] init_view_run))
       = \<lparr>q_page = Some 3, q_page_size = None, q_service_type = Some ''ssh'',
          q_attack_type = Some []\<rparr>"
  by (simp add: view_run_def getAttacks_issue_def init_view_run_def init_view_def
      loadAttacks_def loadAttacks_params_def nextPage_def change_service_type_def sample_page_def)

section \<open>Properties of the presentation\<close>

text \<open>
  Claim C3, as amended. The attacks table follows the specification's table for every
  severity: \<open>\<ge> 8\<close> critical, \<open>\<ge> 6\<close> high, \<open>\<ge> 4\<close> medium, otherwise low (so 0 and 3 are
  low, 4 and 5 medium, 6 and 7 high, 8 and 10 critical). The live feed has three
  colours, not four categories: red exactly for the critical severities (\<open>\<ge> 8\<close>),
  yellow from 5 to 7 and green below 5.
\<close>

theorem severity_mapping:
  "severityClass sev = category_class (spec_category sev)
   \<and> map severityClass [0, 3, 4, 5, 6, 7, 8, 10]
       = map category_class [Low, Low, Medium, Medium, High, High, Critical, Critical]
   \<and> (severityDot sev = ''bg-red-500'') = (spec_category sev = Critical)
   \<and> (severityDot sev = ''bg-yellow-500'') = (5 \<le> sev \<and> sev < 8)
   \<and> (severityDot sev = ''bg-green-500'') = (sev < 5)"
  by (simp add: severityClass_def spec_category_def severityDot_def)

theorem severity_mapping_witness:
  "map severityClass [0, 3, 4, 5, 6, 7, 8, 10]
     = [''severity-low'', ''severity-low'', ''severity-medium'', ''severity-medium'',
        ''severity-high'', ''severity-high'', ''severity-critical font-bold'',
        ''severity-critical font-bold'']
   \<and> map severityDot [0, 3, 4, 5, 6, 7, 8, 10]
     = [''bg-green-500'', ''bg-green-500'', ''bg-green-500'', ''bg-yellow-500'',
        ''bg-yellow-500'', ''bg-yellow-500'', ''bg-red-500'', ''bg-red-500'']"
  using severity_mapping [of 0] severity_mapping [of 3] severity_mapping [of 4]
    severity_mapping [of 5] severity_mapping [of 6] severity_mapping [of 7]
    severity_mapping [of 8] severity_mapping [of 10]
  by (simp add: spec_category_def)

text \<open>
  The claim as it was stated (the feed applies the same boundaries as the table) fails
  at 4 and 5, which are one category and two colours, and at 5 and 6, which are two
  categories and one colour.
\<close>

theorem severity_feed_counterexample:
  "spec_category 4 = spec_category 5 \<and> severityClass 4 = severityClass 5
   \<and> severityDot 4 \<noteq> severityDot 5
   \<and> spec_category 5 \<noteq> spec_category 6 \<and> severityClass 5 \<noteq> severityClass 6
   \<and> severityDot 5 = severityDot 6"
  by (simp add: spec_category_def severityDot_def severityClass_def)

text \<open>
  Claim C8, as amended. For a record without attack type the attacks table shows
  \<^verbatim>\<open>unknown\<close>, as it does for a record whose attack type is the value \<^verbatim>\<open>unknown\<close>; the
  live feed shows \<^verbatim>\<open>scanning\<close> for the record without attack type and \<^verbatim>\<open>unknown\<close>
  for the value \<^verbatim>\<open>unknown\<close>.
\<close>

theorem absent_attack_type_rendering:
  "attack_type a = None \<longrightarrow>
     table_attack_type a = ''unknown''
   \<and> table_attack_type (a\<lparr>attack_type := Some ''unknown''\<rparr>) = ''unknown''
   \<and> feed_attack_type a = ''scanning''
   \<and> feed_attack_type (a\<lparr>attack_type := Some ''unknown''\<rparr>) = ''unknown''"
  by (simp add: table_attack_type_def feed_attack_type_def js_or_def)

theorem absent_attack_type_rendering_witness:
  "attack_type (sample_attack 1) = None
   \<and> table_attack_type (sample_attack 1) = ''unknown''
   \<and> table_attack_type ((sample_attack 1)\<lparr>attack_type := Some ''unknown''\<rparr>) = ''unknown''
   \<and> feed_attack_type (sample_attack 1) = ''scanning''
   \<and> feed_attack_type ((sample_attack 1)\<lparr>attack_type := Some ''unknown''\<rparr>) = ''unknown''"
  using absent_attack_type_rendering [of "sample_attack 1"]
  by (simp add: sample_attack_def)

text \<open>
  The claim as it was stated (both surfaces show \<^verbatim>\<open>unknown\<close>) fails in the live feed
  for the sample record, which has no attack type.
\<close>

theorem absent_attack_type_counterexample:
  "attack_type (sample_attack 1) = None
   \<and> feed_attack_type (sample_attack 1) \<noteq> ''unknown''
   \<and> feed_attack_type (sample_attack 1)
       \<noteq> feed_attack_type ((sample_attack 1)\<lparr>attack_type := Some ''unknown''\<rparr>)"
  by (simp add: sample_attack_def feed_attack_type_def js_or_def)

section \<open>Properties of the transport client\<close>

text \<open>
  Claim C4, as amended. A call that receives status 401 fails with the error of that
  status, and \<^verbatim>\<open>localStorage\<close> is left as it was: the client has no response
  interceptor and no method removes the token. Every later request is therefore built
  from the same storage and carries the same \<^verbatim>\<open>Authorization\<close> header as before.
\<close>

theorem unauthorized_keeps_token:
  "(srv (request_interceptor ls (client_config ''GET'' path [])) = Some response
      \<and> status response = 401 \<longrightarrow>
      api_get srv ls path = (Inl (BadStatus 401), ls)
    \<and> request_interceptor (snd (api_get srv ls path)) config = request_interceptor ls config)
   \<and> (auth (request_interceptor ls (client_config ''POST'' ''/auth/login''
              [(''username'', username), (''password'', password)])) = Some denied
      \<and> status denied = 401 \<longrightarrow>
      login auth ls username password = (Inl (BadStatus 401), ls))"
  by (simp add: api_get_def login_def client_request_def)

theorem unauthorized_keeps_token_witness:
  "server_401 () (request_interceptor storage_with_token (client_config ''GET'' ''/attacks'' []))
      = Some \<lparr>status = 401, data = ()\<rparr>
   \<and> status \<lparr>status = 401, data = ()\<rparr> = 401
   \<and> api_get (server_401 ()) storage_with_token ''/attacks''
      = (Inl (BadStatus 401), storage_with_token)
   \<and> headers (request_interceptor (snd (api_get (server_401 ()) storage_with_token ''/attacks''))
        (client_config ''GET'' ''/stats/overview'' [])) ''Authorization'' = Some ''Bearer abc''
   \<and> server_401 no_login (request_interceptor storage_with_token (client_config ''POST''
        ''/auth/login'' [(''username'', ''admin''), (''password'', ''wrong'')]))
      = Some \<lparr>status = 401, data = no_login\<rparr>
   \<and> login (server_401 no_login) storage_with_token ''admin'' ''wrong''
      = (Inl (BadStatus 401), storage_with_token)"
  using unauthorized_keeps_token
    [of "server_401 ()" storage_with_token "''/attacks''" "\<lparr>status = 401, data = ()\<rparr>"
        "client_config ''GET'' ''/stats/overview'' []"
        "server_401 no_login" "''admin''" "''wrong''" "\<lparr>status = 401, data = no_login\<rparr>"]
  by (simp add: server_401_def storage_with_token_def request_interceptor_def client_config_def)

text \<open>
  The claim as it was stated (the credential is cleared and later calls omit the
  header) fails for a storage that holds the token \<^verbatim>\<open>abc\<close>: after the 401 the token
  is still stored and the next request is sent with \<^verbatim>\<open>Bearer abc\<close>.
\<close>

theorem unauthorized_counterexample:
  "fst (api_get (server_401 ()) storage_with_token ''/attacks'') = Inl (BadStatus 401)
   \<and> snd (api_get (server_401 ()) storage_with_token ''/attacks'') ''token'' = Some ''abc''
   \<and> headers (request_interceptor (snd (api_get (server_401 ()) storage_with_token ''/attacks''))
        (client_config ''GET'' ''/attacks'' [])) ''Authorization'' = Some ''Bearer abc''"
  by (simp add: api_get_def client_request_def server_401_def storage_with_token_def
      request_interceptor_def client_config_def)

section \<open>Properties of the attack map\<close>

lemma fold_addPoint_acc: "fold addPoint ps acc = acc @ fold addPoint ps []"
proof (induction ps arbitrary: acc)
  case Nil
  then show ?case by simp
next
  case (Cons p ps)
  have "fold addPoint (p # ps) acc = addPoint p acc @ fold addPoint ps []"
    using Cons.IH [of "addPoint p acc"] by simp
  moreover have "fold addPoint (p # ps) [] = addPoint p [] @ fold addPoint ps []"
    using Cons.IH [of "addPoint p []"] by simp
  moreover have "addPoint p acc = acc @ addPoint p []"
    by (simp add: addPoint_def)
  ultimately show ?case by simp
qed

lemma map_markers_Cons: "map_markers (p # ps) = addPoint p [] @ map_markers ps"
  using fold_addPoint_acc [of ps "addPoint p []"] by (simp add: map_markers_def)

lemma map_markers_append: "map_markers (ps @ qs) = map_markers ps @ map_markers qs"
  using fold_addPoint_acc [of qs "fold addPoint ps []"] by (simp add: map_markers_def)

text \<open>
  Claim C10. An entry of \<^verbatim>\<open>geoData\<close> gets a marker exactly when its latitude and its
  longitude are both truthy. An entry whose latitude or longitude is 0 has both
  coordinates and still gets no marker, while its row stays in the list of top attack
  origins.
\<close>

theorem zero_coordinate_not_placed:
  "map_markers (before @ point # after)
     = map_markers before
       @ (if js_truthy (latitude point) \<and> js_truthy (longitude point) then [circleMarker point] else [])
       @ map_markers after
   \<and> (latitude point = Some 0 \<or> longitude point = Some 0 \<longrightarrow>
        map_markers (before @ point # after) = map_markers before @ map_markers after
      \<and> top_origins (before @ point # after)
          = top_origins before @ (country_name point, count point) # top_origins after)"
  by (simp add: map_markers_append map_markers_Cons addPoint_def js_truthy_def top_origins_def)

theorem zero_coordinate_not_placed_witness:
  "(latitude equator_point = Some 0 \<or> longitude equator_point = Some 0)
   \<and> map_markers [berlin_point, equator_point] = [circleMarker berlin_point]
   \<and> top_origins [berlin_point, equator_point] = [(''Germany'', 7), (''Ecuador'', 42)]"
  using zero_coordinate_not_placed [of "[berlin_point]" equator_point "[]"]
  by (simp add: equator_point_def berlin_point_def map_markers_def addPoint_def js_truthy_def
      top_origins_def)

end
